theory Spec2Isabelle
  imports Main "HOL-Library.Sublist"
begin

section \<open>JavaScript strings and arrays\<close>

text \<open>
  The portfolio site: the GitHub API client of \<^verbatim>\<open>js/github-api.js\<close> (in its later
  version, the one with \<^verbatim>\<open>getDemoUrl\<close> and the empty fallback list), the DOM helpers of
  the utilities and \<^verbatim>\<open>renderSkills\<close> of \<^verbatim>\<open>js/main.js\<close>.

  A JavaScript string is modelled as a \<^typ>\<open>string\<close>, the list of the bytes of its UTF-8
  encoding. Case mapping is that of the ASCII letters: \<open>toLowerCase\<close> and \<open>toUpperCase\<close>
  leave every byte outside \<^verbatim>\<open>A-Z\<close> and \<^verbatim>\<open>a-z\<close> as it is, where JavaScript also maps the
  letters beyond ASCII (the Kelvin sign to \<^verbatim>\<open>k\<close>, an accented capital to its small letter).
  Every keyword the client compares against is ASCII, and so are the names of GitHub
  repositories, topics and languages.
\<close>

definition upper_letters :: string where
  "upper_letters = ''ABCDEFGHIJKLMNOPQRSTUVWXYZ''"

definition lower_letters :: string where
  "lower_letters = ''abcdefghijklmnopqrstuvwxyz''"

definition toLowerChar :: "char \<Rightarrow> char" where
  "toLowerChar c =
     (case map_of (zip upper_letters lower_letters) c of Some l \<Rightarrow> l | None \<Rightarrow> c)"

definition toUpperChar :: "char \<Rightarrow> char" where
  "toUpperChar c =
     (case map_of (zip lower_letters upper_letters) c of Some u \<Rightarrow> u | None \<Rightarrow> c)"

definition toLowerCase :: "string \<Rightarrow> string" where
  "toLowerCase s = map toLowerChar s"

definition toUpperCase :: "string \<Rightarrow> string" where
  "toUpperCase s = map toUpperChar s"

text \<open>\<^verbatim>\<open>s.includes(k)\<close>: \<open>k\<close> occurs in \<open>s\<close> as a contiguous substring.\<close>

definition str_includes :: "string \<Rightarrow> string \<Rightarrow> bool" where
  "str_includes s k = sublist k s"

text \<open>\<^verbatim>\<open>s.endsWith(k)\<close>.\<close>

definition endsWith :: "string \<Rightarrow> string \<Rightarrow> bool" where
  "endsWith s k = suffix k s"

text \<open>\<^verbatim>\<open>a.includes(x)\<close> on an array.\<close>

definition arr_includes :: "'a list \<Rightarrow> 'a \<Rightarrow> bool" where
  "arr_includes a x = (x \<in> set a)"

text \<open>\<^verbatim>\<open>a.some(p)\<close> on an array.\<close>

definition some :: "'a list \<Rightarrow> ('a \<Rightarrow> bool) \<Rightarrow> bool" where
  "some a p = list_ex p a"

text \<open>\<^verbatim>\<open>s.trim()\<close> removes the white space and the line terminators of JavaScript from
  both ends. They are, in UTF-8: tab, line feed, vertical tab, form feed, carriage return,
  space, U+00A0, U+1680, U+2000 to U+200A, U+2028, U+2029, U+202F, U+205F, U+3000 and
  U+FEFF.\<close>

definition white_space :: "string list" where
  "white_space =
     [[CHR 0x09], [CHR 0x0A], [CHR 0x0B], [CHR 0x0C], [CHR 0x0D], [CHR 0x20],
      [CHR 0xC2, CHR 0xA0], [CHR 0xE1, CHR 0x9A, CHR 0x80],
      [CHR 0xE2, CHR 0x80, CHR 0x80], [CHR 0xE2, CHR 0x80, CHR 0x81],
      [CHR 0xE2, CHR 0x80, CHR 0x82], [CHR 0xE2, CHR 0x80, CHR 0x83],
      [CHR 0xE2, CHR 0x80, CHR 0x84], [CHR 0xE2, CHR 0x80, CHR 0x85],
      [CHR 0xE2, CHR 0x80, CHR 0x86], [CHR 0xE2, CHR 0x80, CHR 0x87],
      [CHR 0xE2, CHR 0x80, CHR 0x88], [CHR 0xE2, CHR 0x80, CHR 0x89],
      [CHR 0xE2, CHR 0x80, CHR 0x8A], [CHR 0xE2, CHR 0x80, CHR 0xA8],
      [CHR 0xE2, CHR 0x80, CHR 0xA9], [CHR 0xE2, CHR 0x80, CHR 0xAF],
      [CHR 0xE2, CHR 0x81, CHR 0x9F], [CHR 0xE3, CHR 0x80, CHR 0x80],
      [CHR 0xEF, CHR 0xBB, CHR 0xBF]]"

text \<open>Removing from the front of a string every leading sequence of one, two or three
  bytes that is in the list \<open>ws\<close>.\<close>

fun strip :: "string list \<Rightarrow> string \<Rightarrow> string" where
  "strip ws [] = []"
| "strip ws (c # cs) =
     (if [c] \<in> set ws then strip ws cs
      else (case cs of
              [] \<Rightarrow> [c]
            | d # ds \<Rightarrow>
                if [c, d] \<in> set ws then strip ws ds
                else (case ds of
                        [] \<Rightarrow> [c, d]
                      | e # es \<Rightarrow>
                          if [c, d, e] \<in> set ws then strip ws es else c # d # e # es)))"

definition trimStart :: "string \<Rightarrow> string" where
  "trimStart s = strip white_space s"

definition trimEnd :: "string \<Rightarrow> string" where
  "trimEnd s = rev (strip (map rev white_space) (rev s))"

definition trim :: "string \<Rightarrow> string" where
  "trim s = trimEnd (trimStart s)"

text \<open>A field that holds a string, \<^verbatim>\<open>null\<close> or \<^verbatim>\<open>undefined\<close> is truthy only when it
  holds a non-empty string: the tests \<open>s \<noteq> []\<close> on such a field are truthiness tests.\<close>

text \<open>\<^verbatim>\<open>[...new Set(a)]\<close>: a \<^verbatim>\<open>Set\<close> keeps its elements in insertion order, and adding
  an element it already holds changes nothing.\<close>

definition set_add :: "'a \<Rightarrow> 'a list \<Rightarrow> 'a list" where
  "set_add x acc = (if x \<in> set acc then acc else acc @ [x])"

definition new_Set :: "'a list \<Rightarrow> 'a list" where
  "new_Set a = fold set_add a []"

text \<open>\<^verbatim>\<open>a.sort(cmp)\<close>: the sort is stable, and \<open>x\<close> stays before \<open>y\<close> when
  \<open>cmp x y \<le> 0\<close>. Insertion from the right end is such a sort.\<close>

fun insert_cmp :: "('a \<Rightarrow> 'a \<Rightarrow> int) \<Rightarrow> 'a \<Rightarrow> 'a list \<Rightarrow> 'a list" where
  "insert_cmp cmp x [] = [x]"
| "insert_cmp cmp x (y # ys) =
     (if cmp x y \<le> 0 then x # y # ys else y # insert_cmp cmp x ys)"

definition js_sort :: "('a \<Rightarrow> 'a \<Rightarrow> int) \<Rightarrow> 'a list \<Rightarrow> 'a list" where
  "js_sort cmp a = foldr (insert_cmp cmp) a []"


section \<open>Configuration\<close>

definition USERNAME :: string where
  "USERNAME = ''purplehoge''"

definition CACHE_DURATION :: int where
  "CACHE_DURATION = 3600000"

definition RATE_LIMIT_DELAY :: int where
  "RATE_LIMIT_DELAY = 1000"

definition EXCLUDED_REPOS :: "string list" where
  "EXCLUDED_REPOS = [''purplehoge'', ''README'']"


section \<open>Repository objects\<close>

text \<open>The fields of a repository object of the GitHub response that the client reads.
  A field that may be \<^verbatim>\<open>null\<close> or missing is an option.\<close>

record raw_repo =
  name :: string
  fork :: bool
  description :: "string option"
  homepage :: "string option"
  html_url :: string
  language :: "string option"
  topics :: "string list option"
  stargazers_count :: "int option"
  updated_at :: string
  created_at :: string

text \<open>A technology name is a string, except that the lookup in the object literal
  \<^verbatim>\<open>nameMap\<close> also finds the two lower-case properties every object inherits.\<close>

datatype tech = Name string | ObjectConstructor | ObjectPrototype

record github_data =
  stars :: "int option"
  gd_language :: "string option"
  updatedAt :: string
  createdAt :: string
  gd_topics :: "string list"

record repo_summary =
  rs_id :: string
  title :: string
  rs_description :: string
  technologies :: "tech list"
  image :: "string option"
  demoUrl :: "string option"
  sourceUrl :: string
  status :: string
  featured :: bool
  githubData :: github_data

text \<open>What \<^verbatim>\<open>new URL(url)\<close> exposes to the client. The parser itself belongs to the
  browser: it is a parameter \<open>parseURL\<close> of the model, \<open>None\<close> where it throws.\<close>

record url_parts =
  protocol :: string
  hostname :: string


section \<open>Technology extraction\<close>

definition techKeywords :: "string list" where
  "techKeywords =
     [''javascript'', ''typescript'', ''python'', ''java'', ''html'', ''css'',
      ''react'', ''vue'', ''angular'', ''node'', ''express'', ''flask'', ''django'',
      ''git'', ''docker'', ''mongodb'', ''mysql'', ''postgresql'',
      ''frontend'', ''backend'', ''api'', ''rest'']"

definition isTechnologyTopic :: "string \<Rightarrow> bool" where
  "isTechnologyTopic topic =
     some techKeywords (\<lambda>keyword. str_includes (toLowerCase topic) keyword)"

definition nameMap :: "string \<Rightarrow> tech option" where
  "nameMap key =
     (if key = ''javascript'' then Some (Name ''JavaScript'')
      else if key = ''typescript'' then Some (Name ''TypeScript'')
      else if key = ''python'' then Some (Name ''Python'')
      else if key = ''html'' then Some (Name ''HTML'')
      else if key = ''css'' then Some (Name ''CSS'')
      else if key = ''react'' then Some (Name ''React'')
      else if key = ''vue'' then Some (Name ''Vue.js'')
      else if key = ''node'' then Some (Name ''Node.js'')
      else if key = ''constructor'' then Some ObjectConstructor
      else if key = ''__proto__'' then Some ObjectPrototype
      else None)"

text \<open>\<^verbatim>\<open>tech.charAt(0).toUpperCase() + tech.slice(1)\<close>, on the first byte: a first
  character beyond ASCII is left as it is.\<close>

definition capitalize :: "string \<Rightarrow> string" where
  "capitalize t = toUpperCase (take 1 t) @ drop 1 t"

definition normalizeTechnologyName :: "string \<Rightarrow> tech" where
  "normalizeTechnologyName t =
     (case nameMap (toLowerCase t) of
        Some normalized \<Rightarrow> normalized
      | None \<Rightarrow> Name (capitalize t))"

definition extractTechnologies :: "raw_repo \<Rightarrow> tech list" where
  "extractTechnologies repo =
     (let t0 = [];
          t1 = (case language repo of
                  Some l \<Rightarrow> if l \<noteq> [] then t0 @ [l] else t0
                | None \<Rightarrow> t0);
          t2 = (case topics repo of
                  Some ts \<Rightarrow> if length ts > 0 then t1 @ filter isTechnologyTopic ts else t1
                | None \<Rightarrow> t1)
      in take 6 (map normalizeTechnologyName (new_Set t2)))"

text \<open>The claim's words, to compare with: the primary language when present, followed by
  the technology-related topics, each value kept at its first occurrence only.\<close>

definition primary_language :: "raw_repo \<Rightarrow> string list" where
  "primary_language repo =
     (case language repo of None \<Rightarrow> [] | Some l \<Rightarrow> if l = [] then [] else [l])"

definition technology_topics :: "raw_repo \<Rightarrow> string list" where
  "technology_topics repo =
     (case topics repo of None \<Rightarrow> [] | Some ts \<Rightarrow> filter isTechnologyTopic ts)"

fun first_occurrences :: "'a list \<Rightarrow> 'a list" where
  "first_occurrences [] = []"
| "first_occurrences (x # xs) = x # first_occurrences (filter (\<lambda>y. y \<noteq> x) xs)"


section \<open>Demo URL resolution\<close>

definition isVercelUrl :: "(string \<Rightarrow> url_parts option) \<Rightarrow> string \<Rightarrow> bool" where
  "isVercelUrl parseURL url =
     (let vercelDomains = [''vercel.app'', ''vercel.com'', ''now.sh''] in
      case parseURL url of
        None \<Rightarrow> False
      | Some urlObj \<Rightarrow> some vercelDomains (\<lambda>domain. endsWith (hostname urlObj) domain))"

definition isValidDeployUrl :: "(string \<Rightarrow> url_parts option) \<Rightarrow> string \<Rightarrow> bool" where
  "isValidDeployUrl parseURL url =
     (let deployDomains = [''netlify.app'', ''netlify.com'', ''herokuapp.com'', ''github.io'',
                           ''pages.dev'', ''railway.app'', ''surge.sh''] in
      case parseURL url of
        None \<Rightarrow> False
      | Some urlObj \<Rightarrow>
          if \<not> arr_includes [''http:'', ''https:''] (protocol urlObj) then False
          else some deployDomains (\<lambda>domain. endsWith (hostname urlObj) domain))"

definition likelyHasGitHubPages :: "raw_repo \<Rightarrow> bool" where
  "likelyHasGitHubPages repo =
     (let repoName = toLowerCase (name repo);
          descr = toLowerCase (case description repo of Some d \<Rightarrow> d | None \<Rightarrow> []);
          tps = (case topics repo of Some ts \<Rightarrow> ts | None \<Rightarrow> []);
          webKeywords = [''website'', ''site'', ''page'', ''portfolio'', ''blog'', ''docs'',
                         ''documentation'', ''demo'', ''landing'', ''web''];
          hasWebKeyword =
            (some webKeywords (\<lambda>keyword. str_includes repoName keyword) \<or>
             some webKeywords (\<lambda>keyword. str_includes descr keyword) \<or>
             some tps (\<lambda>topic. arr_includes webKeywords (toLowerCase topic)));
          frontendTech = [''html'', ''css'', ''javascript'', ''react'', ''vue''];
          hasFrontendTech =
            ((case language repo of
                Some l \<Rightarrow> arr_includes frontendTech (toLowerCase l)
              | None \<Rightarrow> False) \<or>
             some tps (\<lambda>topic. arr_includes frontendTech (toLowerCase topic)));
          hasGitHubPagesTopic = arr_includes tps ''github-pages''
      in hasWebKeyword \<or> hasFrontendTech \<or> hasGitHubPagesTopic)"

definition getGitHubPagesUrl :: "raw_repo \<Rightarrow> string option" where
  "getGitHubPagesUrl repo =
     (let username = USERNAME; repoName = name repo in
      if repoName = username @ ''.github.io'' then Some (''https://'' @ username @ ''.github.io/'')
      else
        let githubPagesUrl = ''https://'' @ username @ ''.github.io/'' @ repoName @ ''/'' in
        if likelyHasGitHubPages repo then Some githubPagesUrl else None)"

definition getDemoUrl :: "(string \<Rightarrow> url_parts option) \<Rightarrow> raw_repo \<Rightarrow> string option" where
  "getDemoUrl parseURL repo =
     (let fromHomepage =
            (case homepage repo of
               None \<Rightarrow> None
             | Some h \<Rightarrow>
                 if h \<noteq> [] then
                   (let hp = trim h in
                    if isVercelUrl parseURL hp then Some hp
                    else if isValidDeployUrl parseURL hp then Some hp
                    else None)
                 else None)
      in case fromHomepage of
           Some hp \<Rightarrow> Some hp
         | None \<Rightarrow>
            (case getGitHubPagesUrl repo of
               Some githubPagesUrl \<Rightarrow> Some githubPagesUrl
             | None \<Rightarrow>
                (case homepage repo of
                   Some h \<Rightarrow> if h \<noteq> [] \<and> trim h \<noteq> [] then Some (trim h) else None
                 | None \<Rightarrow> None)))"

text \<open>The claim's words, to compare with. A homepage counts as a URL on a known
  hosting-provider domain when the parsed hostname ends with one of the Vercel domains, or
  the scheme is \<^verbatim>\<open>http:\<close> or \<^verbatim>\<open>https:\<close> and the hostname ends with one of the other
  providers' domains.\<close>

definition deploy_homepage :: "(string \<Rightarrow> url_parts option) \<Rightarrow> string \<Rightarrow> bool" where
  "deploy_homepage parseURL url =
     (case parseURL url of
        None \<Rightarrow> False
      | Some u \<Rightarrow>
          list_ex (\<lambda>d. suffix d (hostname u)) [''vercel.app'', ''vercel.com'', ''now.sh''] \<or>
          (protocol u = ''http:'' \<or> protocol u = ''https:'') \<and>
          list_ex (\<lambda>d. suffix d (hostname u))
            [''netlify.app'', ''netlify.com'', ''herokuapp.com'', ''github.io'',
             ''pages.dev'', ''railway.app'', ''surge.sh''])"

text \<open>The homepage field, trimmed, when the field holds a non-empty string.\<close>

definition trimmed_homepage :: "raw_repo \<Rightarrow> string option" where
  "trimmed_homepage repo =
     (case homepage repo of
        None \<Rightarrow> None
      | Some h \<Rightarrow> if h = [] then None else Some (trim h))"

definition pages_url :: "raw_repo \<Rightarrow> string" where
  "pages_url repo = ''https://purplehoge.github.io/'' @ name repo @ ''/''"

text \<open>The resolution order as the claim states it.\<close>

definition claimed_demo_url :: "(string \<Rightarrow> url_parts option) \<Rightarrow> raw_repo \<Rightarrow> string option" where
  "claimed_demo_url parseURL repo =
     (if (case trimmed_homepage repo of
            Some hp \<Rightarrow> deploy_homepage parseURL hp | None \<Rightarrow> False)
      then trimmed_homepage repo
      else if likelyHasGitHubPages repo then Some (pages_url repo)
      else if trimmed_homepage repo = Some [] then None
      else trimmed_homepage repo)"

text \<open>The same order with the user site, \<^verbatim>\<open>purplehoge.github.io\<close>, resolved to its own
  URL ahead of the heuristic.\<close>

definition amended_demo_url :: "(string \<Rightarrow> url_parts option) \<Rightarrow> raw_repo \<Rightarrow> string option" where
  "amended_demo_url parseURL repo =
     (if (case trimmed_homepage repo of
            Some hp \<Rightarrow> deploy_homepage parseURL hp | None \<Rightarrow> False)
      then trimmed_homepage repo
      else if name repo = ''purplehoge.github.io'' then Some ''https://purplehoge.github.io/''
      else if likelyHasGitHubPages repo then Some (pages_url repo)
      else if trimmed_homepage repo = Some [] then None
      else trimmed_homepage repo)"

text \<open>The repository of the user site with nothing but its name filled in, and a parser
  that is never consulted for it.\<close>

definition user_site_repo :: raw_repo where
  "user_site_repo =
     \<lparr> name = ''purplehoge.github.io'', fork = False, description = None, homepage = None,
       html_url = ''https://github.com/purplehoge/purplehoge.github.io'', language = None,
       topics = Some [], stargazers_count = Some 0,
       updated_at = ''2024-01-01T00:00:00Z'', created_at = ''2024-01-01T00:00:00Z'' \<rparr>"

definition no_url :: "string \<Rightarrow> url_parts option" where
  "no_url s = None"


section \<open>Processing the response\<close>

text \<open>The default description, \<^verbatim>\<open>repo.description || '...'\<close>, as the bytes of its UTF-8
  encoding (eight Japanese characters).\<close>

definition NO_DESCRIPTION :: string where
  "NO_DESCRIPTION =
     [CHR 0xE8, CHR 0xAA, CHR 0xAC, CHR 0xE6, CHR 0x98, CHR 0x8E,
      CHR 0xE3, CHR 0x81, CHR 0x8C, CHR 0xE3, CHR 0x81, CHR 0x82,
      CHR 0xE3, CHR 0x82, CHR 0x8A, CHR 0xE3, CHR 0x81, CHR 0xBE,
      CHR 0xE3, CHR 0x81, CHR 0x9B, CHR 0xE3, CHR 0x82, CHR 0x93]"

text \<open>\<^verbatim>\<open>x || 0\<close> on a star count, and \<^verbatim>\<open>x || []\<close> on a list of topics.\<close>

definition or0 :: "int option \<Rightarrow> int" where
  "or0 v = (case v of Some n \<Rightarrow> n | None \<Rightarrow> 0)"

definition orEmpty :: "'a list option \<Rightarrow> 'a list" where
  "orEmpty v = (case v of Some a \<Rightarrow> a | None \<Rightarrow> [])"

definition isFeaturedRepo :: "raw_repo \<Rightarrow> bool" where
  "isFeaturedRepo repo =
     (let hasStars = (or0 (stargazers_count repo) > 0);
          hasFeaturedTopic = arr_includes (orEmpty (topics repo)) ''featured'';
          isPortfolio = str_includes (toLowerCase (name repo)) ''portfolio''
      in hasStars \<or> hasFeaturedTopic \<or> isPortfolio)"

definition toSummary :: "(string \<Rightarrow> url_parts option) \<Rightarrow> raw_repo \<Rightarrow> repo_summary" where
  "toSummary parseURL repo =
     \<lparr> rs_id = ''github-'' @ name repo,
       title = name repo,
       rs_description = (case description repo of
                           Some d \<Rightarrow> if d \<noteq> [] then d else NO_DESCRIPTION
                         | None \<Rightarrow> NO_DESCRIPTION),
       technologies = extractTechnologies repo,
       image = None,
       demoUrl = getDemoUrl parseURL repo,
       sourceUrl = html_url repo,
       status = ''completed'',
       featured = isFeaturedRepo repo,
       githubData = \<lparr> stars = stargazers_count repo,
                      gd_language = language repo,
                      updatedAt = updated_at repo,
                      createdAt = created_at repo,
                      gd_topics = orEmpty (topics repo) \<rparr> \<rparr>"

definition compareRepos :: "repo_summary \<Rightarrow> repo_summary \<Rightarrow> int" where
  "compareRepos a b =
     (if featured a \<and> \<not> featured b then - 1
      else if \<not> featured a \<and> featured b then 1
      else or0 (stars (githubData b)) - or0 (stars (githubData a)))"

definition processRepositories ::
  "(string \<Rightarrow> url_parts option) \<Rightarrow> raw_repo list \<Rightarrow> repo_summary list" where
  "processRepositories parseURL repos =
     js_sort compareRepos
       (map (toSummary parseURL)
          (filter (\<lambda>repo. \<not> fork repo)
             (filter (\<lambda>repo. \<not> arr_includes EXCLUDED_REPOS (name repo)) repos)))"


section \<open>The client\<close>

record cache_entry =
  data :: "repo_summary list"
  timestamp :: int

record client =
  cache :: "string \<rightharpoonup> cache_entry"
  lastRequestTime :: int
  isLoading :: bool

text \<open>The constructor.\<close>

definition new_client :: client where
  "new_client = \<lparr> cache = Map.empty, lastRequestTime = 0, isLoading = False \<rparr>"

text \<open>
  What the client does to the page around it: the set of the global \<^verbatim>\<open>loadingManager\<close>,
  the delays it has passed to \<^verbatim>\<open>setTimeout\<close>, and the calls of \<^verbatim>\<open>fetch\<close> it has made,
  each recorded with the value \<^verbatim>\<open>lastRequestTime\<close> has at the call (latest first):
  \<^verbatim>\<open>fetch\<close> is called as soon as \<^verbatim>\<open>respectRateLimit\<close> has recorded that time.
  The console output of the client and of \<^verbatim>\<open>ErrorHandler.log\<close> is not part of the model;
  neither throws for the error objects the \<^verbatim>\<open>try\<close> block can throw.
\<close>

record page =
  activeLoaders :: "string set"
  timeouts :: "int list"
  fetches :: "int list"

definition new_page :: page where
  "new_page = \<lparr> activeLoaders = {}, timeouts = [], fetches = [] \<rparr>"

definition loader_start :: "string \<Rightarrow> page \<Rightarrow> page" where
  "loader_start i p = p\<lparr>activeLoaders := insert i (activeLoaders p)\<rparr>"

definition loader_stop :: "string \<Rightarrow> page \<Rightarrow> page" where
  "loader_stop i p = p\<lparr>activeLoaders := activeLoaders p - {i}\<rparr>"

text \<open>
  What one call of \<^verbatim>\<open>getRepositories\<close> meets: the readings of \<^verbatim>\<open>Date.now()\<close>, in
  the order the call takes them, and the fate of the request.
\<close>

datatype payload = Malformed | RepoList "raw_repo list"

datatype fetch_outcome =
    FetchRejects
  | NotOk nat
  | JsonRejects
  | Json payload

datatype js_error = NetworkError | HttpError nat | SyntaxError | TypeError

record env =
  t_check :: int
  t_limit :: int
  t_request :: int
  outcome :: fetch_outcome
  t_store :: int

definition getCachedData :: "int \<Rightarrow> string \<Rightarrow> client \<Rightarrow> repo_summary list option \<times> client" where
  "getCachedData now key c =
     (case cache c key of
        None \<Rightarrow> (None, c)
      | Some cached \<Rightarrow>
          let isExpired = (now - timestamp cached > CACHE_DURATION) in
          if isExpired then (None, c\<lparr>cache := (cache c)(key := None)\<rparr>)
          else (Some (data cached), c))"

definition setCachedData :: "int \<Rightarrow> string \<Rightarrow> repo_summary list \<Rightarrow> client \<Rightarrow> client" where
  "setCachedData now key d c =
     c\<lparr>cache := (cache c)(key \<mapsto> \<lparr> data = d, timestamp = now \<rparr>)\<rparr>"

text \<open>
  \<^verbatim>\<open>respectRateLimit\<close> runs in two parts. The first reads the clock and decides
  whether to wait, and for how long; the second, after the timer has fired if there was
  one, records the time of the request.
\<close>

definition rateLimitWait :: "int \<Rightarrow> client \<Rightarrow> int option" where
  "rateLimitWait now c =
     (let timeSinceLastRequest = now - lastRequestTime c in
      if timeSinceLastRequest < RATE_LIMIT_DELAY
      then Some (RATE_LIMIT_DELAY - timeSinceLastRequest)
      else None)"

definition rateLimitResume :: "int \<Rightarrow> client \<Rightarrow> client" where
  "rateLimitResume now c = c\<lparr>lastRequestTime := now\<rparr>"

definition respectRateLimit :: "int \<Rightarrow> int \<Rightarrow> client \<times> page \<Rightarrow> client \<times> page" where
  "respectRateLimit now later s =
     (case s of (c, p) \<Rightarrow>
        let p1 = (case rateLimitWait now c of
                    Some waitTime \<Rightarrow> p\<lparr>timeouts := waitTime # timeouts p\<rparr>
                  | None \<Rightarrow> p)
        in (rateLimitResume later c, p1))"

definition fetchUserRepositories ::
  "env \<Rightarrow> client \<times> page \<Rightarrow> (js_error + payload) \<times> client \<times> page" where
  "fetchUserRepositories e s =
     (case respectRateLimit (t_limit e) (t_request e) s of (c, p) \<Rightarrow>
        let p1 = p\<lparr>fetches := lastRequestTime c # fetches p\<rparr> in
        (case outcome e of
           FetchRejects \<Rightarrow> (Inl NetworkError, c, p1)
         | NotOk st \<Rightarrow> (Inl (HttpError st), c, p1)
         | JsonRejects \<Rightarrow> (Inl SyntaxError, c, p1)
         | Json d \<Rightarrow> (Inr d, c, p1)))"

definition getFallbackRepositories :: "repo_summary list" where
  "getFallbackRepositories = []"

definition cacheKey :: string where
  "cacheKey = ''user-repositories''"

text \<open>The body of the \<^verbatim>\<open>try\<close> block: \<open>Inl\<close> is an exception thrown in it.\<close>

definition try_block ::
  "(string \<Rightarrow> url_parts option) \<Rightarrow> env \<Rightarrow> client \<times> page \<Rightarrow>
   (js_error + repo_summary list) \<times> client \<times> page" where
  "try_block parseURL e s =
     (case s of (c, p) \<Rightarrow>
       (case getCachedData (t_check e) cacheKey c of
          (Some cachedData, c1) \<Rightarrow> (Inr cachedData, c1, p)
        | (None, c1) \<Rightarrow>
            let c2 = c1\<lparr>isLoading := True\<rparr>;
                p2 = loader_start ''github-repos'' p
            in (case fetchUserRepositories e (c2, p2) of
                  (Inl err, c3, p3) \<Rightarrow> (Inl err, c3, p3)
                | (Inr Malformed, c3, p3) \<Rightarrow> (Inl TypeError, c3, p3)
                | (Inr (RepoList repos), c3, p3) \<Rightarrow>
                    (let processedRepos = processRepositories parseURL repos;
                         c4 = setCachedData (t_store e) cacheKey processedRepos c3
                     in (Inr processedRepos, c4, p3)))))"

text \<open>The whole method, with its \<^verbatim>\<open>catch\<close> and \<^verbatim>\<open>finally\<close> blocks: \<open>Inl\<close> is a
  rejected promise, \<open>Inr\<close> the value the promise resolves to.\<close>

definition getRepositories ::
  "(string \<Rightarrow> url_parts option) \<Rightarrow> env \<Rightarrow> client \<times> page \<Rightarrow>
   (js_error + repo_summary list) \<times> client \<times> page" where
  "getRepositories parseURL e s =
     (case try_block parseURL e s of (r, c, p) \<Rightarrow>
        let caught = (case r of
                        Inl err \<Rightarrow> Inr getFallbackRepositories
                      | Inr v \<Rightarrow> Inr v)
        in (caught, c\<lparr>isLoading := False\<rparr>, loader_stop ''github-repos'' p))"

definition isLoadingData :: "client \<Rightarrow> bool" where
  "isLoadingData c = isLoading c"

definition clearCache :: "client \<Rightarrow> client" where
  "clearCache c = c\<lparr>cache := Map.empty\<rparr>"

text \<open>The public operations, and the states a client and its page go through when they
  are called one after the other. The parameter \<open>ok\<close> says which environments a call may
  meet in a given state.\<close>

datatype operation = GetRepositories env | ClearCache | IsLoadingData

fun exec :: "(string \<Rightarrow> url_parts option) \<Rightarrow> operation \<Rightarrow> client \<times> page \<Rightarrow> client \<times> page" where
  "exec parseURL (GetRepositories e) s = snd (getRepositories parseURL e s)"
| "exec parseURL ClearCache (c, p) = (clearCache c, p)"
| "exec parseURL IsLoadingData (c, p) = (c, p)"

inductive reachable ::
  "(string \<Rightarrow> url_parts option) \<Rightarrow> (env \<Rightarrow> client \<Rightarrow> bool) \<Rightarrow> client \<times> page \<Rightarrow> bool"
  for parseURL ok where
  init: "reachable parseURL ok (new_client, new_page)"
| get: "reachable parseURL ok (c, p) \<Longrightarrow> ok e c \<Longrightarrow>
        reachable parseURL ok (exec parseURL (GetRepositories e) (c, p))"
| clear: "reachable parseURL ok s \<Longrightarrow> reachable parseURL ok (exec parseURL ClearCache s)"
| loading: "reachable parseURL ok s \<Longrightarrow> reachable parseURL ok (exec parseURL IsLoadingData s)"

text \<open>A request fails when \<^verbatim>\<open>fetch\<close> rejects, the status is not an \<^verbatim>\<open>ok\<close> one, the
  body is not JSON, or the JSON is not a list of repository objects.\<close>

fun failed :: "fetch_outcome \<Rightarrow> bool" where
  "failed (Json (RepoList repos)) = False"
| "failed other = True"

text \<open>The timer of \<^verbatim>\<open>respectRateLimit\<close> does not fire early and the clock does not run
  backwards: the second reading of the clock is no earlier than the first plus the delay
  asked for.\<close>

definition timer_ok :: "env \<Rightarrow> client \<Rightarrow> bool" where
  "timer_ok e c =
     (t_limit e + (case rateLimitWait (t_limit e) c of Some w \<Rightarrow> w | None \<Rightarrow> 0) \<le> t_request e)"

text \<open>Request times, latest first, any two of which are \<^verbatim>\<open>RATE_LIMIT_DELAY\<close> apart.\<close>

definition spaced :: "int list \<Rightarrow> bool" where
  "spaced ts = sorted_wrt (\<lambda>later earlier. earlier + RATE_LIMIT_DELAY \<le> later) ts"

text \<open>
  Calls that overlap. \<^verbatim>\<open>respectRateLimit\<close> gives up control at its \<^verbatim>\<open>await\<close>, so
  another call can run its first part before the timer of this one fires. An event is
  either a call entering \<^verbatim>\<open>respectRateLimit\<close> (with the two readings of the clock it
  takes if it does not wait) or the timer of a waiting call firing (with the reading of the
  clock it then takes). The state is the client, the time each waiting call's timer is due,
  and the times of the requests sent, latest first.
\<close>

datatype event = Call nat int int | Timer nat int

fun step ::
  "event \<Rightarrow> client \<times> (nat \<rightharpoonup> int) \<times> int list \<Rightarrow> client \<times> (nat \<rightharpoonup> int) \<times> int list" where
  "step (Call i now later) (c, waiting, sent) =
     (case rateLimitWait now c of
        None \<Rightarrow> (rateLimitResume later c, waiting, later # sent)
      | Some waitTime \<Rightarrow> (c, waiting(i \<mapsto> now + waitTime), sent))"
| "step (Timer i now) (c, waiting, sent) =
     (case waiting i of
        None \<Rightarrow> (c, waiting, sent)
      | Some due \<Rightarrow>
          if now < due then (c, waiting, sent)
          else (rateLimitResume now c, waiting(i := None), now # sent))"

definition requests_sent :: "event list \<Rightarrow> int list" where
  "requests_sent evs = snd (snd (fold step evs (new_client, Map.empty, [])))"

definition timer_due :: "event list \<Rightarrow> nat \<Rightarrow> int option" where
  "timer_due evs i = fst (snd (fold step evs (new_client, Map.empty, []))) i"

text \<open>Three calls: the first sends its request at once; the second and the third enter
  200 ms later, before either timer has fired, and both timers fire 800 ms after that.\<close>

definition overlapping :: "event list" where
  "overlapping = [Call 1 10000 10000, Call 2 10200 10200, Call 3 10200 10200,
                  Timer 2 11000, Timer 3 11000]"


section \<open>The order of the processed list\<close>

definition before :: "repo_summary \<Rightarrow> repo_summary \<Rightarrow> bool" where
  "before a b = (compareRepos a b \<le> 0)"


section \<open>Sample inputs\<close>

definition tool_repo :: raw_repo where
  "tool_repo =
     \<lparr> name = ''tool'', fork = False, description = None, homepage = None,
       html_url = ''https://github.com/purplehoge/tool'', language = Some ''Python'',
       topics = Some [''python'', ''cli''], stargazers_count = Some 2,
       updated_at = ''2024-01-01T00:00:00Z'', created_at = ''2024-01-01T00:00:00Z'' \<rparr>"

definition sample_repos :: "raw_repo list" where
  "sample_repos =
     [tool_repo\<lparr>name := ''README''\<rparr>, tool_repo\<lparr>fork := True\<rparr>, user_site_repo, tool_repo,
      tool_repo\<lparr>name := ''lib'', stargazers_count := Some 5\<rparr>]"

definition env_fail :: env where
  "env_fail = \<lparr> t_check = 5000, t_limit = 5000, t_request = 5001,
                 outcome = FetchRejects, t_store = 5300 \<rparr>"

definition env_ok :: env where
  "env_ok = \<lparr> t_check = 5000, t_limit = 5000, t_request = 5001,
               outcome = Json (RepoList sample_repos), t_store = 5300 \<rparr>"

text \<open>The states after a first call that fails, and after a first call that succeeds.\<close>

definition after_failure :: "client \<times> page" where
  "after_failure = exec no_url (GetRepositories env_fail) (new_client, new_page)"

definition after_success :: "client \<times> page" where
  "after_success = exec no_url (GetRepositories env_ok) (new_client, new_page)"

text \<open>The entry the successful call stores.\<close>

definition cached_entry :: cache_entry where
  "cached_entry = \<lparr> data = processRepositories no_url sample_repos, timestamp = 5300 \<rparr>"

text \<open>A second call 399 ms after the failed request, whose timer fires on time.\<close>

definition env_retry :: env where
  "env_retry = \<lparr> t_check = 5400, t_limit = 5400, t_request = 6001,
                  outcome = FetchRejects, t_store = 6300 \<rparr>"

text \<open>A call when the cached entry, stored at 5300, is exactly one hour old, and a call
  one millisecond later.\<close>

definition env_within :: env where
  "env_within = \<lparr> t_check = 3605300, t_limit = 3605300, t_request = 3605300,
                   outcome = FetchRejects, t_store = 3605600 \<rparr>"

definition env_expired :: env where
  "env_expired = \<lparr> t_check = 3605301, t_limit = 3605301, t_request = 3605301,
                    outcome = Json (RepoList [tool_repo]), t_store = 3605600 \<rparr>"


section \<open>DOM helpers\<close>

text \<open>
  The page the helpers query. \<^verbatim>\<open>document.querySelector\<close> and
  \<^verbatim>\<open>document.querySelectorAll\<close> belong to the browser: they are fields of the model's
  document, \<open>Inl\<close> where they throw.
\<close>

type_synonym element = nat

datatype dom_exception = DOMSyntaxError

record document =
  querySelector :: "string \<Rightarrow> dom_exception + element option"
  querySelectorAll :: "string \<Rightarrow> dom_exception + element list"

text \<open>A call of \<^verbatim>\<open>console.warn\<close>, with the message and the error object it is given.\<close>

datatype console_entry = Warn string dom_exception

text \<open>The message of the warning: the bytes of the Japanese text for
  ``invalid selector'', a colon and a space, and the selector.\<close>

definition invalid_selector_message :: "string \<Rightarrow> string" where
  "invalid_selector_message selector =
     [CHR 0xE7, CHR 0x84, CHR 0xA1, CHR 0xE5, CHR 0x8A, CHR 0xB9,
      CHR 0xE3, CHR 0x81, CHR 0xAA, CHR 0xE3, CHR 0x82, CHR 0xBB,
      CHR 0xE3, CHR 0x83, CHR 0xAC, CHR 0xE3, CHR 0x82, CHR 0xAF,
      CHR 0xE3, CHR 0x82, CHR 0xBF, CHR 0xE3, CHR 0x83, CHR 0xBC,
      CHR 0x3A, CHR 0x20] @ selector"

text \<open>Both helpers return the value they return or \<open>Inl\<close> the exception that leaves
  them, and the console with what they have logged.\<close>

definition safeQuerySelector ::
  "document \<Rightarrow> string \<Rightarrow> console_entry list \<Rightarrow>
   (dom_exception + element option) \<times> console_entry list" where
  "safeQuerySelector doc selector console =
     (case querySelector doc selector of
        Inr found \<Rightarrow> (Inr found, console)
      | Inl error \<Rightarrow>
          (Inr None, console @ [Warn (invalid_selector_message selector) error]))"

definition safeQuerySelectorAll ::
  "document \<Rightarrow> string \<Rightarrow> console_entry list \<Rightarrow>
   (dom_exception + element list) \<times> console_entry list" where
  "safeQuerySelectorAll doc selector console =
     (case querySelectorAll doc selector of
        Inr found \<Rightarrow> (Inr found, console)
      | Inl error \<Rightarrow>
          (querySelectorAll doc [],
           console @ [Warn (invalid_selector_message selector) error]))"

text \<open>A page without elements. Its selector parser rejects the empty string, as every
  browser's does, and the unclosed bracket; what else it rejects does not matter here.\<close>

definition blank_page :: document where
  "blank_page =
     \<lparr> querySelector = (\<lambda>s. if s = [] \<or> s = ''['' then Inl DOMSyntaxError else Inr None),
       querySelectorAll = (\<lambda>s. if s = [] \<or> s = ''['' then Inl DOMSyntaxError else Inr []) \<rparr>"


section \<open>Rendering the skills\<close>


































section \<open>Filtering and ordering of the processed list\<close>

lemma set_insert_cmp: "set (insert_cmp cmp x ys) = insert x (set ys)"
  by (induction ys) auto

lemma set_js_sort: "set (js_sort cmp a) = set a"
  unfolding js_sort_def by (induction a) (auto simp: set_insert_cmp)

text \<open>
  C8. Every element of the list \<^verbatim>\<open>processRepositories\<close> returns is the summary of an
  input repository that is not a fork and whose name is not in \<^verbatim>\<open>EXCLUDED_REPOS\<close>
  (\<^verbatim>\<open>purplehoge\<close>, \<^verbatim>\<open>README\<close>): no excluded or forked repository appears in the output.
\<close>

theorem processRepositories_excludes:
  "\<forall>s \<in> set (processRepositories parseURL repos).
     \<exists>r \<in> set repos. s = toSummary parseURL r \<and> title s = name r \<and>
        \<not> fork r \<and> name r \<noteq> ''purplehoge'' \<and> name r \<noteq> ''README'' \<and>
        name r \<notin> set EXCLUDED_REPOS"
  by (auto simp: processRepositories_def set_js_sort arr_includes_def toSummary_def
                 EXCLUDED_REPOS_def)

theorem processRepositories_excludes_witness:
  "toSummary no_url tool_repo \<in> set (processRepositories no_url sample_repos) \<and>
   (\<exists>r \<in> set sample_repos. toSummary no_url tool_repo = toSummary no_url r \<and>
      \<not> fork r \<and> name r \<notin> set EXCLUDED_REPOS)"
proof -
  have mem: "toSummary no_url tool_repo \<in> set (processRepositories no_url sample_repos)"
    by code_simp
  from processRepositories_excludes [of no_url sample_repos] mem
  have "\<exists>r \<in> set sample_repos. toSummary no_url tool_repo = toSummary no_url r \<and>
      title (toSummary no_url tool_repo) = name r \<and>
      \<not> fork r \<and> name r \<noteq> ''purplehoge'' \<and> name r \<noteq> ''README'' \<and>
      name r \<notin> set EXCLUDED_REPOS"
    by (rule bspec)
  with mem show ?thesis by blast
qed

lemma before_total: "before a b \<or> before b a"
  by (auto simp: before_def compareRepos_def)

lemma before_trans: "before a b \<Longrightarrow> before b c \<Longrightarrow> before a c"
  by (auto simp: before_def compareRepos_def split: if_splits)

lemma before_iff:
  "before a b \<longleftrightarrow>
     (featured a \<and> \<not> featured b) \<or>
     (featured a = featured b \<and> or0 (stars (githubData b)) \<le> or0 (stars (githubData a)))"
  by (auto simp: before_def compareRepos_def)

lemma sorted_insert_cmp:
  "sorted_wrt before ys \<Longrightarrow> sorted_wrt before (insert_cmp compareRepos x ys)"
proof (induction ys)
  case Nil
  then show ?case by simp
next
  case (Cons y ys)
  show ?case
  proof (cases "compareRepos x y \<le> 0")
    case True
    then have xy: "before x y" by (simp add: before_def)
    have "\<forall>z \<in> set ys. before x z"
      using Cons.prems xy before_trans by auto
    with True xy Cons.prems show ?thesis by simp
  next
    case False
    then have "before y x" using before_total [of x y] by (simp add: before_def)
    with False Cons show ?thesis by (auto simp: set_insert_cmp)
  qed
qed

lemma sorted_js_sort: "sorted_wrt before (js_sort compareRepos a)"
  unfolding js_sort_def by (induction a) (auto simp: sorted_insert_cmp)

text \<open>
  C9. In the list \<^verbatim>\<open>processRepositories\<close> returns, an entry at an earlier position
  \<open>i\<close> and one at a later position \<open>j\<close> are ordered: if the later one is featured so is the
  earlier one (every featured entry precedes every entry that is not), and when both have
  the same flag the star count of the later one is at most that of the earlier one (a
  missing count reads as 0, as in the comparison function).
\<close>

theorem processRepositories_ordered:
  assumes "ps = processRepositories parseURL repos" and "i < j" and "j < length ps"
  shows "(featured (ps ! j) \<longrightarrow> featured (ps ! i)) \<and>
         (featured (ps ! i) = featured (ps ! j) \<longrightarrow>
            or0 (stars (githubData (ps ! j))) \<le> or0 (stars (githubData (ps ! i))))"
proof -
  have "sorted_wrt before ps"
    using assms(1) by (simp add: processRepositories_def sorted_js_sort)
  then have "before (ps ! i) (ps ! j)"
    using assms(2,3) by (simp add: sorted_wrt_iff_nth_less)
  then show ?thesis by (auto simp: before_iff)
qed

theorem processRepositories_ordered_witness:
  "(0::nat) < 1 \<and> 1 < length (processRepositories no_url sample_repos) \<and>
   featured (processRepositories no_url sample_repos ! 0) \<and>
   featured (processRepositories no_url sample_repos ! 1) \<and>
   or0 (stars (githubData (processRepositories no_url sample_repos ! 1)))
     \<le> or0 (stars (githubData (processRepositories no_url sample_repos ! 0)))"
proof -
  have len: "1 < length (processRepositories no_url sample_repos)"
    by code_simp
  have f: "featured (processRepositories no_url sample_repos ! 0)"
    "featured (processRepositories no_url sample_repos ! 1)"
    by code_simp+
  from processRepositories_ordered
         [where ps = "processRepositories no_url sample_repos" and parseURL = no_url
            and repos = sample_repos and i = 0 and j = 1] f len
  show ?thesis by simp
qed


section \<open>The extracted technologies\<close>

lemma fold_set_add:
  "fold set_add xs acc = acc @ first_occurrences (filter (\<lambda>x. x \<notin> set acc) xs)"
proof (induction xs arbitrary: acc)
  case Nil
  then show ?case by simp
next
  case (Cons x xs)
  show ?case
  proof (cases "x \<in> set acc")
    case True
    then have "set_add x acc = acc" by (simp add: set_add_def)
    with True show ?thesis by (simp add: Cons.IH)
  next
    case False
    have "filter (\<lambda>y. y \<notin> set (acc @ [x])) xs =
          filter (\<lambda>y. y \<noteq> x) (filter (\<lambda>y. y \<notin> set acc) xs)"
      by (induction xs) auto
    moreover from False have "set_add x acc = acc @ [x]" by (simp add: set_add_def)
    ultimately show ?thesis using False by (simp add: Cons.IH)
  qed
qed

lemma new_Set_first_occurrences: "new_Set a = first_occurrences a"
  by (simp add: new_Set_def fold_set_add)

lemma set_first_occurrences: "set (first_occurrences xs) = set xs"
  by (induction xs rule: first_occurrences.induct) auto

lemma distinct_first_occurrences: "distinct (first_occurrences xs)"
  by (induction xs rule: first_occurrences.induct) (auto simp: set_first_occurrences)

lemma extract_candidates:
  "extractTechnologies repo =
     take 6 (map normalizeTechnologyName
               (new_Set (primary_language repo @ technology_topics repo)))"
  by (auto simp: extractTechnologies_def primary_language_def technology_topics_def Let_def
           split: option.splits)

text \<open>
  C10. \<^verbatim>\<open>extractTechnologies\<close> returns at most 6 names: the first 6 of the normalised
  names of the primary language (when present) followed by the technology-related topics,
  where each value is kept at its first occurrence only and the duplicates are removed
  before the names are normalised.
\<close>

theorem extractTechnologies_spec:
  "length (extractTechnologies repo) \<le> 6 \<and>
   extractTechnologies repo =
     take 6 (map normalizeTechnologyName
               (first_occurrences (primary_language repo @ technology_topics repo))) \<and>
   distinct (first_occurrences (primary_language repo @ technology_topics repo)) \<and>
   set (first_occurrences (primary_language repo @ technology_topics repo)) =
     set (primary_language repo) \<union> set (technology_topics repo)"
  by (simp add: extract_candidates new_Set_first_occurrences distinct_first_occurrences
                set_first_occurrences)


section \<open>The resolved demo URL\<close>

lemma deploy_homepage_iff:
  "deploy_homepage parseURL url \<longleftrightarrow>
     isVercelUrl parseURL url \<or> isValidDeployUrl parseURL url"
  by (auto simp: deploy_homepage_def isVercelUrl_def isValidDeployUrl_def some_def
                 endsWith_def arr_includes_def split: option.splits)

lemma getGitHubPagesUrl_cases:
  "getGitHubPagesUrl repo =
     (if name repo = ''purplehoge.github.io'' then Some ''https://purplehoge.github.io/''
      else if likelyHasGitHubPages repo then Some (pages_url repo) else None)"
  by (simp add: getGitHubPagesUrl_def USERNAME_def pages_url_def Let_def)

text \<open>
  C2, as the code has it. \<^verbatim>\<open>getDemoUrl\<close> returns the trimmed homepage when it is a
  URL on a known hosting-provider domain; otherwise \<^verbatim>\<open>https://purplehoge.github.io/\<close>
  when the repository is the user site \<^verbatim>\<open>purplehoge.github.io\<close>; otherwise the
  constructed URL \<^verbatim>\<open>https://purplehoge.github.io/<name>/\<close> when the repository is judged
  likely to have GitHub Pages; otherwise the trimmed homepage when it is not empty;
  otherwise \<^verbatim>\<open>null\<close>.
\<close>

theorem getDemoUrl_amended: "getDemoUrl parseURL repo = amended_demo_url parseURL repo"
  by (auto simp: getDemoUrl_def amended_demo_url_def trimmed_homepage_def deploy_homepage_iff
                 getGitHubPagesUrl_cases Let_def split: option.splits)

text \<open>
  C2, as stated, fails for the user site: the repository is not judged likely to have
  GitHub Pages and has no homepage, so the stated order gives \<^verbatim>\<open>null\<close>, and the URL the
  code returns is not of the form \<^verbatim>\<open>https://purplehoge.github.io/<name>/\<close> either.
\<close>

theorem getDemoUrl_user_site:
  "getDemoUrl no_url user_site_repo = Some ''https://purplehoge.github.io/'' \<and>
   claimed_demo_url no_url user_site_repo = None \<and>
   \<not> likelyHasGitHubPages user_site_repo \<and>
   getDemoUrl no_url user_site_repo \<noteq> Some (pages_url user_site_repo) \<and>
   getDemoUrl no_url user_site_repo \<noteq> claimed_demo_url no_url user_site_repo"
  by code_simp

section \<open>Failure, cache window and cache key\<close>

lemma getCachedData_cases:
  "getCachedData now key c =
     (case cache c key of
        None \<Rightarrow> (None, c)
      | Some ent \<Rightarrow>
          if now - timestamp ent \<le> CACHE_DURATION then (Some (data ent), c)
          else (None, c\<lparr>cache := (cache c)(key := None)\<rparr>))"
  by (auto simp: getCachedData_def Let_def split: option.splits)

lemma fetch_state:
  "fetchUserRepositories e (c, p) = (r, c', p') \<Longrightarrow>
     c' = c\<lparr>lastRequestTime := t_request e\<rparr> \<and>
     fetches p' = t_request e # fetches p \<and>
     activeLoaders p' = activeLoaders p \<and>
     timeouts p' = (case rateLimitWait (t_limit e) c of Some w \<Rightarrow> [w] | None \<Rightarrow> []) @ timeouts p"
  by (auto simp: fetchUserRepositories_def respectRateLimit_def rateLimitResume_def Let_def
           split: fetch_outcome.splits option.splits prod.splits)

lemma fetch_result:
  "fst (fetchUserRepositories e s) =
     (case outcome e of
        FetchRejects \<Rightarrow> Inl NetworkError
      | NotOk st \<Rightarrow> Inl (HttpError st)
      | JsonRejects \<Rightarrow> Inl SyntaxError
      | Json d \<Rightarrow> Inr d)"
  by (auto simp: fetchUserRepositories_def Let_def split: fetch_outcome.splits prod.splits)

lemma try_block_hit:
  assumes "cache c cacheKey = Some ent" and "t_check e - timestamp ent \<le> CACHE_DURATION"
  shows "try_block parseURL e (c, p) = (Inr (data ent), c, p)"
  using assms by (simp add: try_block_def getCachedData_cases)

lemma try_block_miss:
  assumes "fst (getCachedData (t_check e) cacheKey c) = None"
  shows "\<exists>r c' p'. try_block parseURL e (c, p) = (r, c', p') \<and>
           fetches p' = t_request e # fetches p \<and>
           lastRequestTime c' = t_request e \<and>
           timeouts p' = (case rateLimitWait (t_limit e) c of Some w \<Rightarrow> [w] | None \<Rightarrow> []) @ timeouts p \<and>
           (case outcome e of
              Json (RepoList repos) \<Rightarrow>
                r = Inr (processRepositories parseURL repos) \<and>
                cache c' = (cache c)(cacheKey \<mapsto>
                   \<lparr> data = processRepositories parseURL repos, timestamp = t_store e \<rparr>)
            | other \<Rightarrow> (\<exists>err. r = Inl err) \<and> cache c' = (cache c)(cacheKey := None))"
proof -
  obtain c1 where g: "getCachedData (t_check e) cacheKey c = (None, c1)"
    using assms by (cases "getCachedData (t_check e) cacheKey c") auto
  have c1: "cache c1 = (cache c)(cacheKey := None) \<and> lastRequestTime c1 = lastRequestTime c"
    using g by (auto simp: getCachedData_cases split: option.splits if_splits)
  obtain fr c3 p3 where f: "fetchUserRepositories e (c1\<lparr>isLoading := True\<rparr>, loader_start ''github-repos'' p) = (fr, c3, p3)"
    by (metis prod_cases3)
  note fs = fetch_state [OF f]
  have fr: "fr = (case outcome e of
        FetchRejects \<Rightarrow> Inl NetworkError
      | NotOk st \<Rightarrow> Inl (HttpError st)
      | JsonRejects \<Rightarrow> Inl SyntaxError
      | Json d \<Rightarrow> Inr d)"
    using fetch_result [of e "(c1\<lparr>isLoading := True\<rparr>, loader_start ''github-repos'' p)"] f by simp
  have w: "rateLimitWait (t_limit e) (c1\<lparr>isLoading := True\<rparr>) = rateLimitWait (t_limit e) c"
    using c1 by (simp add: rateLimitWait_def)
  show ?thesis
    using g f fs fr c1 w
    by (auto simp: try_block_def Let_def setCachedData_def loader_start_def
             split: fetch_outcome.splits payload.splits)
qed


lemma getRepositories_hit:
  assumes "cache c cacheKey = Some ent" and "t_check e - timestamp ent \<le> CACHE_DURATION"
  shows "getRepositories parseURL e (c, p) =
           (Inr (data ent), c\<lparr>isLoading := False\<rparr>, loader_stop ''github-repos'' p)"
  using assms by (simp add: getRepositories_def try_block_hit)

lemma getRepositories_miss:
  assumes "fst (getCachedData (t_check e) cacheKey c) = None"
      and "getRepositories parseURL e (c, p) = (r, c', p')"
  shows "fetches p' = t_request e # fetches p \<and>
         lastRequestTime c' = t_request e \<and>
         timeouts p' = (case rateLimitWait (t_limit e) c of Some w \<Rightarrow> [w] | None \<Rightarrow> []) @ timeouts p \<and>
         (case outcome e of
            Json (RepoList repos) \<Rightarrow>
              r = Inr (processRepositories parseURL repos) \<and>
              cache c' = (cache c)(cacheKey \<mapsto>
                 \<lparr> data = processRepositories parseURL repos, timestamp = t_store e \<rparr>)
          | other \<Rightarrow> r = Inr [] \<and> cache c' = (cache c)(cacheKey := None))"
proof -
  from try_block_miss [OF assms(1), of parseURL p]
  obtain r0 c0 p0 where t: "try_block parseURL e (c, p) = (r0, c0, p0)"
    and f: "fetches p0 = t_request e # fetches p" "lastRequestTime c0 = t_request e"
       "timeouts p0 = (case rateLimitWait (t_limit e) c of Some w \<Rightarrow> [w] | None \<Rightarrow> []) @ timeouts p"
    and o: "(case outcome e of
              Json (RepoList repos) \<Rightarrow>
                r0 = Inr (processRepositories parseURL repos) \<and>
                cache c0 = (cache c)(cacheKey \<mapsto>
                   \<lparr> data = processRepositories parseURL repos, timestamp = t_store e \<rparr>)
            | other \<Rightarrow> (\<exists>err. r0 = Inl err) \<and> cache c0 = (cache c)(cacheKey := None))"
    by blast
  have r: "r = (case r0 of Inl err \<Rightarrow> Inr getFallbackRepositories | Inr v \<Rightarrow> Inr v)"
    and c: "c' = c0\<lparr>isLoading := False\<rparr>" and p: "p' = loader_stop ''github-repos'' p0"
    using assms(2) t by (auto simp: getRepositories_def Let_def)
  show ?thesis
    using f o r c p
    by (auto simp: loader_stop_def getFallbackRepositories_def
             split: fetch_outcome.splits payload.splits)
qed

lemma getRepositories_total:
  "\<exists>v. fst (getRepositories parseURL e s) = Inr v"
  by (auto simp: getRepositories_def Let_def split: prod.splits sum.splits)

text \<open>
  C1. The promise \<^verbatim>\<open>getRepositories\<close> returns never rejects. Whenever the \<^verbatim>\<open>try\<close> block
  throws, the call resolves to the empty fallback list; in particular when the cache has
  no valid entry and the request fails at any step (\<^verbatim>\<open>fetch\<close> rejects, the status is not
  ok, the body is not JSON, or the processing of the parsed value throws), in which case
  one request has been made and nothing is cached.
\<close>

theorem getRepositories_fallback:
  "(\<exists>v. fst (getRepositories parseURL e (c, p)) = Inr v) \<and>
   (\<forall>err. fst (try_block parseURL e (c, p)) = Inl err \<longrightarrow>
      fst (getRepositories parseURL e (c, p)) = Inr []) \<and>
   (fst (getCachedData (t_check e) cacheKey c) = None \<and> failed (outcome e) \<longrightarrow>
      fst (getRepositories parseURL e (c, p)) = Inr [] \<and>
      fetches (snd (snd (getRepositories parseURL e (c, p)))) = t_request e # fetches p \<and>
      cache (fst (snd (getRepositories parseURL e (c, p)))) cacheKey = None)"
proof (intro conjI allI impI)
  show "\<exists>v. fst (getRepositories parseURL e (c, p)) = Inr v"
    by (rule getRepositories_total)
next
  fix err assume "fst (try_block parseURL e (c, p)) = Inl err"
  then show "fst (getRepositories parseURL e (c, p)) = Inr []"
    by (auto simp: getRepositories_def getFallbackRepositories_def Let_def split: prod.splits)
next
  assume a: "fst (getCachedData (t_check e) cacheKey c) = None \<and> failed (outcome e)"
  obtain r c' p' where g: "getRepositories parseURL e (c, p) = (r, c', p')"
    by (metis prod_cases3)
  from getRepositories_miss [OF _ g] a
  have m: "fetches p' = t_request e # fetches p"
    "(case outcome e of
            Json (RepoList repos) \<Rightarrow>
              r = Inr (processRepositories parseURL repos) \<and>
              cache c' = (cache c)(cacheKey \<mapsto>
                 \<lparr> data = processRepositories parseURL repos, timestamp = t_store e \<rparr>)
          | other \<Rightarrow> r = Inr [] \<and> cache c' = (cache c)(cacheKey := None))"
    by auto
  from a have "failed (outcome e)" by simp
  with m(2) have "r = Inr [] \<and> cache c' cacheKey = None"
    by (cases "outcome e" rule: failed.cases) auto
  with m(1) g
  show "fst (getRepositories parseURL e (c, p)) = Inr []"
    "fetches (snd (snd (getRepositories parseURL e (c, p)))) = t_request e # fetches p"
    "cache (fst (snd (getRepositories parseURL e (c, p)))) cacheKey = None"
    by auto
qed


theorem getRepositories_fallback_witness:
  "fst (getCachedData (t_check env_fail) cacheKey new_client) = None \<and>
   failed (outcome env_fail) \<and>
   fst (try_block no_url env_fail (new_client, new_page)) = Inl NetworkError \<and>
   fst (getRepositories no_url env_fail (new_client, new_page)) = Inr [] \<and>
   cache (fst (snd (getRepositories no_url env_fail (new_client, new_page)))) cacheKey = None"
proof -
  have h: "fst (getCachedData (t_check env_fail) cacheKey new_client) = None \<and>
           failed (outcome env_fail)"
    by code_simp
  have t: "fst (try_block no_url env_fail (new_client, new_page)) = Inl NetworkError"
    by code_simp
  from getRepositories_fallback [of no_url env_fail new_client new_page] h t
  show ?thesis by blast
qed

text \<open>
  C3. \<^verbatim>\<open>getRepositories\<close> serves from the cache exactly when the entry under its key is
  at most one hour (3,600,000 ms) old at the time of the check: then the cached list is
  returned, no request is made and the cache is unchanged. When there is no entry, or its
  age exceeds one hour, one request is made; if it succeeds the processed list is returned
  and stored under the key with the time of the store, and if it fails the expired entry
  is gone and nothing is stored.
\<close>

theorem getRepositories_cache_window:
  assumes "getRepositories parseURL e (c, p) = (r, c', p')"
  shows "CACHE_DURATION = 3600000 \<and>
         (\<forall>ent. cache c cacheKey = Some ent \<and> t_check e - timestamp ent \<le> CACHE_DURATION \<longrightarrow>
            r = Inr (data ent) \<and> fetches p' = fetches p \<and> cache c' = cache c) \<and>
         (cache c cacheKey = None \<or>
          (\<exists>ent. cache c cacheKey = Some ent \<and> CACHE_DURATION < t_check e - timestamp ent) \<longrightarrow>
            fetches p' = t_request e # fetches p \<and>
            (case outcome e of
               Json (RepoList repos) \<Rightarrow>
                 r = Inr (processRepositories parseURL repos) \<and>
                 cache c' = (cache c)(cacheKey \<mapsto>
                   \<lparr> data = processRepositories parseURL repos, timestamp = t_store e \<rparr>)
             | other \<Rightarrow> r = Inr [] \<and> cache c' = (cache c)(cacheKey := None)))"
proof (intro conjI allI impI)
  show "CACHE_DURATION = 3600000" by (simp add: CACHE_DURATION_def)
next
  fix ent
  assume "cache c cacheKey = Some ent \<and> t_check e - timestamp ent \<le> CACHE_DURATION"
  then have h: "cache c cacheKey = Some ent" "t_check e - timestamp ent \<le> CACHE_DURATION"
    by auto
  from getRepositories_hit [OF h, of parseURL p] assms
  show "r = Inr (data ent)" "fetches p' = fetches p" "cache c' = cache c"
    by (auto simp: loader_stop_def)
next
  assume "cache c cacheKey = None \<or>
          (\<exists>ent. cache c cacheKey = Some ent \<and> CACHE_DURATION < t_check e - timestamp ent)"
  then have m: "fst (getCachedData (t_check e) cacheKey c) = None"
    by (auto simp: getCachedData_cases)
  from getRepositories_miss [OF m assms]
  show "fetches p' = t_request e # fetches p"
    "(case outcome e of
               Json (RepoList repos) \<Rightarrow>
                 r = Inr (processRepositories parseURL repos) \<and>
                 cache c' = (cache c)(cacheKey \<mapsto>
                   \<lparr> data = processRepositories parseURL repos, timestamp = t_store e \<rparr>)
             | other \<Rightarrow> r = Inr [] \<and> cache c' = (cache c)(cacheKey := None))"
    by auto
qed

theorem getRepositories_cache_window_witness:
  "cache (fst after_success) cacheKey = Some cached_entry \<and>
   t_check env_within - timestamp cached_entry \<le> CACHE_DURATION \<and>
   fst (getRepositories no_url env_within after_success) = Inr (data cached_entry) \<and>
   fetches (snd (snd (getRepositories no_url env_within after_success))) =
     fetches (snd after_success) \<and>
   CACHE_DURATION < t_check env_expired - timestamp cached_entry \<and>
   fetches (snd (snd (getRepositories no_url env_expired after_success))) =
     t_request env_expired # fetches (snd after_success) \<and>
   fst (getRepositories no_url env_expired after_success) =
     Inr (processRepositories no_url [tool_repo])"
proof -
  have c: "cache (fst after_success) cacheKey = Some cached_entry"
    by code_simp
  have a1: "t_check env_within - timestamp cached_entry \<le> CACHE_DURATION"
    by (simp add: env_within_def cached_entry_def CACHE_DURATION_def)
  have a2: "CACHE_DURATION < t_check env_expired - timestamp cached_entry"
    by (simp add: env_expired_def cached_entry_def CACHE_DURATION_def)
  have o: "outcome env_expired = Json (RepoList [tool_repo])"
    by (simp add: env_expired_def)
  obtain r1 c1 p1 where
    g1: "getRepositories no_url env_within (fst after_success, snd after_success) = (r1, c1, p1)"
    by (metis prod_cases3)
  obtain r2 c2 p2 where
    g2: "getRepositories no_url env_expired (fst after_success, snd after_success) = (r2, c2, p2)"
    by (metis prod_cases3)
  from getRepositories_cache_window [OF g1] c a1
  have w1: "r1 = Inr (data cached_entry) \<and> fetches p1 = fetches (snd after_success)"
    by blast
  from getRepositories_cache_window [OF g2] c a2
  have "fetches p2 = t_request env_expired # fetches (snd after_success) \<and>
        (case outcome env_expired of
           Json (RepoList repos) \<Rightarrow>
             r2 = Inr (processRepositories no_url repos) \<and>
             cache c2 = (cache (fst after_success))(cacheKey \<mapsto>
               \<lparr> data = processRepositories no_url repos, timestamp = t_store env_expired \<rparr>)
         | other \<Rightarrow> r2 = Inr [] \<and> cache c2 = (cache (fst after_success))(cacheKey := None))"
    by blast
  with o have w2: "fetches p2 = t_request env_expired # fetches (snd after_success) \<and>
                   r2 = Inr (processRepositories no_url [tool_repo])"
    by simp
  from g1 g2 w1 w2 c a1 a2 show ?thesis by simp
qed

lemma getRepositories_cache_dom:
  "getRepositories parseURL e (c, p) = (r, c', p') \<Longrightarrow>
     dom (cache c') \<subseteq> insert cacheKey (dom (cache c))"
proof -
  assume g: "getRepositories parseURL e (c, p) = (r, c', p')"
  show ?thesis
  proof (cases "fst (getCachedData (t_check e) cacheKey c)")
    case None
    from getRepositories_miss [OF None g] show ?thesis
      by (auto split: fetch_outcome.splits payload.splits if_splits)
  next
    case (Some d)
    then obtain ent where "cache c cacheKey = Some ent" "t_check e - timestamp ent \<le> CACHE_DURATION"
      by (auto simp: getCachedData_cases split: option.splits if_splits)
    from getRepositories_hit [OF this, of parseURL p] g show ?thesis by auto
  qed
qed

text \<open>
  C4. In every state a client reaches from its construction by calls of
  \<^verbatim>\<open>getRepositories\<close>, \<^verbatim>\<open>clearCache\<close> and \<^verbatim>\<open>isLoadingData\<close>, one after the other and
  whatever the calls meet, the cache holds at most one entry, and an entry it holds is
  under the key \<^verbatim>\<open>user-repositories\<close>.
\<close>

theorem cache_single_entry:
  assumes "reachable parseURL ok s"
  shows "dom (cache (fst s)) \<subseteq> {''user-repositories''} \<and> card (dom (cache (fst s))) \<le> 1"
proof -
  have sub: "dom (cache (fst s)) \<subseteq> {cacheKey}"
    using assms
  proof (induction rule: reachable.induct)
    case init
    then show ?case by (simp add: new_client_def)
  next
    case (get c p e)
    obtain r c' p' where g: "getRepositories parseURL e (c, p) = (r, c', p')"
      by (metis prod_cases3)
    from getRepositories_cache_dom [OF g] get.IH g show ?case by auto
  next
    case (clear s)
    then show ?case by (cases s) (simp add: clearCache_def)
  next
    case (loading s)
    then show ?case by (cases s) simp
  qed
  then have "card (dom (cache (fst s))) \<le> card {cacheKey}"
    by (intro card_mono) auto
  with sub show ?thesis by (simp add: cacheKey_def)
qed


theorem cache_single_entry_witness:
  "reachable no_url timer_ok after_success \<and>
   dom (cache (fst after_success)) \<subseteq> {''user-repositories''} \<and>
   card (dom (cache (fst after_success))) \<le> 1 \<and>
   cache (fst after_success) ''user-repositories'' = Some cached_entry"
proof -
  have "timer_ok env_ok new_client"
    by code_simp
  with reachable.init have r: "reachable no_url timer_ok after_success"
    unfolding after_success_def by (rule reachable.get)
  have "cache (fst after_success) ''user-repositories'' = Some cached_entry"
    by code_simp
  with cache_single_entry [OF r] r show ?thesis by simp
qed


section \<open>Rate limiting\<close>

lemma spaced_Cons:
  "spaced (t # ts) \<longleftrightarrow> (\<forall>u \<in> set ts. u + RATE_LIMIT_DELAY \<le> t) \<and> spaced ts"
  by (simp add: spaced_def)

lemma timer_ok_gap: "timer_ok e c \<Longrightarrow> lastRequestTime c + RATE_LIMIT_DELAY \<le> t_request e"
  by (auto simp: timer_ok_def rateLimitWait_def Let_def split: if_splits)

lemma rateLimitWait_cases:
  "(case rateLimitWait now c of Some w \<Rightarrow> [w] | None \<Rightarrow> []) =
     (if now - lastRequestTime c < RATE_LIMIT_DELAY
      then [RATE_LIMIT_DELAY - (now - lastRequestTime c)] else [])"
  by (simp add: rateLimitWait_def Let_def)

lemma getRepositories_fetches:
  assumes "getRepositories parseURL e (c, p) = (r, c', p')"
  shows "(fetches p' = fetches p \<and> lastRequestTime c' = lastRequestTime c) \<or>
         (fetches p' = t_request e # fetches p \<and> lastRequestTime c' = t_request e \<and>
          timeouts p' = (case rateLimitWait (t_limit e) c of Some w \<Rightarrow> [w] | None \<Rightarrow> []) @ timeouts p)"
proof (cases "fst (getCachedData (t_check e) cacheKey c)")
  case None
  from getRepositories_miss [OF None assms] show ?thesis by simp
next
  case (Some d)
  then obtain ent where "cache c cacheKey = Some ent" "t_check e - timestamp ent \<le> CACHE_DURATION"
    by (auto simp: getCachedData_cases split: option.splits if_splits)
  from getRepositories_hit [OF this, of parseURL p] assms show ?thesis
    by (auto simp: loader_stop_def)
qed

lemma reachable_spaced:
  assumes "reachable parseURL timer_ok s"
  shows "spaced (fetches (snd s)) \<and> (\<forall>t \<in> set (fetches (snd s)). t \<le> lastRequestTime (fst s))"
  using assms
proof (induction rule: reachable.induct)
  case init
  then show ?case by (simp add: new_page_def spaced_def)
next
  case (get c p e)
  obtain r c' p' where g: "getRepositories parseURL e (c, p) = (r, c', p')"
    by (metis prod_cases3)
  from timer_ok_gap [OF get.hyps(2)] have gap: "lastRequestTime c + RATE_LIMIT_DELAY \<le> t_request e" .
  have "0 \<le> RATE_LIMIT_DELAY" by (simp add: RATE_LIMIT_DELAY_def)
  with getRepositories_fetches [OF g] get.IH gap g show ?case
    by (fastforce simp: spaced_Cons)
next
  case (clear s)
  then show ?case by (cases s) (simp add: clearCache_def)
next
  case (loading s)
  then show ?case by (cases s) simp
qed

text \<open>
  C5, for calls that do not overlap. Let the calls of the public operations follow one
  another, each call of \<^verbatim>\<open>getRepositories\<close> meeting a timer that does not fire early
  and a clock that does not run backwards. Then any two requests sent are at least
  \<^verbatim>\<open>RATE_LIMIT_DELAY\<close> (1,000 ms) apart; a call sends at most one request, also when the
  request fails; and before it sends one, the call asks for a timer of exactly the rest
  of the delay when less than 1,000 ms have passed since the recorded time of the previous
  request, and for no timer otherwise.
\<close>

theorem rate_limit_sequential:
  assumes "reachable parseURL timer_ok (c, p)" and "timer_ok e c"
      and "getRepositories parseURL e (c, p) = (r, c', p')"
  shows "RATE_LIMIT_DELAY = 1000 \<and> spaced (fetches p') \<and>
         (fetches p' = fetches p \<or> fetches p' = t_request e # fetches p) \<and>
         (fetches p' \<noteq> fetches p \<longrightarrow>
            lastRequestTime c + RATE_LIMIT_DELAY \<le> t_request e \<and>
            timeouts p' =
              (if t_limit e - lastRequestTime c < RATE_LIMIT_DELAY
               then [RATE_LIMIT_DELAY - (t_limit e - lastRequestTime c)] else []) @ timeouts p)"
proof -
  have "reachable parseURL timer_ok (exec parseURL (GetRepositories e) (c, p))"
    using assms(1,2) by (rule reachable.get)
  from reachable_spaced [OF this] assms(3) have "spaced (fetches p')" by simp
  moreover note getRepositories_fetches [OF assms(3)] timer_ok_gap [OF assms(2)]
  ultimately show ?thesis
    by (auto simp: RATE_LIMIT_DELAY_def rateLimitWait_cases)
qed

theorem rate_limit_sequential_witness:
  "reachable no_url timer_ok after_failure \<and>
   timer_ok env_retry (fst after_failure) \<and>
   spaced (fetches (snd (snd (getRepositories no_url env_retry after_failure)))) \<and>
   fetches (snd (snd (getRepositories no_url env_retry after_failure))) = [6001, 5001] \<and>
   timeouts (snd (snd (getRepositories no_url env_retry after_failure))) = [601]"
proof -
  have "timer_ok env_fail new_client"
    by code_simp
  with reachable.init have "reachable no_url timer_ok after_failure"
    unfolding after_failure_def by (rule reachable.get)
  then have r: "reachable no_url timer_ok (fst after_failure, snd after_failure)"
    by simp
  have t: "timer_ok env_retry (fst after_failure)"
    by code_simp
  have f: "fetches (snd (snd (getRepositories no_url env_retry after_failure))) = [6001, 5001]"
    "timeouts (snd (snd (getRepositories no_url env_retry after_failure))) = [601]"
    by code_simp+
  obtain r' c' p' where
    g: "getRepositories no_url env_retry (fst after_failure, snd after_failure) = (r', c', p')"
    by (metis prod_cases3)
  from rate_limit_sequential [OF r t g] have "spaced (fetches p')"
    by blast
  with g r t f show ?thesis by simp
qed

text \<open>
  C5, as stated, fails when calls overlap. The first call sends its request at 10000. The
  second and the third enter \<^verbatim>\<open>respectRateLimit\<close> at 10200, before either has recorded
  its request: both read the same \<^verbatim>\<open>lastRequestTime\<close>, both ask for a timer of 800 ms,
  and when the two timers fire at 11000 both requests start, 0 ms apart.
\<close>

theorem rate_limit_overlapping_calls:
  "requests_sent overlapping = [11000, 11000, 10000] \<and>
   timer_due (take 3 overlapping) 2 = Some 11000 \<and>
   timer_due (take 3 overlapping) 3 = Some 11000 \<and>
   \<not> spaced (requests_sent overlapping)"
  by code_simp


section \<open>Selectors the document rejects\<close>

lemma safeQuerySelector_catches:
  "querySelector doc selector = Inl error \<Longrightarrow>
     safeQuerySelector doc selector console =
       (Inr None, console @ [Warn (invalid_selector_message selector) error])"
  by (simp add: safeQuerySelector_def)

lemma safeQuerySelector_never_throws:
  "\<exists>v. fst (safeQuerySelector doc selector console) = Inr v"
  by (simp add: safeQuerySelector_def split: sum.splits)

lemma safeQuerySelectorAll_rethrows:
  "querySelectorAll doc selector = Inl error \<Longrightarrow> querySelectorAll doc [] = Inl error' \<Longrightarrow>
     safeQuerySelectorAll doc selector console =
       (Inl error', console @ [Warn (invalid_selector_message selector) error])"
  by (simp add: safeQuerySelectorAll_def)

lemma safeQuerySelectorAll_fallback:
  "querySelectorAll doc selector = Inl error \<Longrightarrow> querySelectorAll doc [] = Inr found \<Longrightarrow>
     safeQuerySelectorAll doc selector console =
       (Inr found, console @ [Warn (invalid_selector_message selector) error])"
  by (simp add: safeQuerySelectorAll_def)

text \<open>
  C6 holds for \<^verbatim>\<open>safeQuerySelector\<close> and fails for \<^verbatim>\<open>safeQuerySelectorAll\<close>. The handler of
  the latter, after it has logged the warning, asks the document for the elements that
  match the empty selector; the empty string is not a valid selector, so that call throws
  in its turn and the exception leaves the helper. On the blank page, for the selector
  \<^verbatim>\<open>[\<close>:
\<close>

theorem safeQuerySelectorAll_propagates:
  "querySelectorAll blank_page ''['' = Inl DOMSyntaxError \<and>
   safeQuerySelectorAll blank_page ''['' [] =
     (Inl DOMSyntaxError, [Warn (invalid_selector_message ''['') DOMSyntaxError]) \<and>
   safeQuerySelector blank_page ''['' [] =
     (Inr None, [Warn (invalid_selector_message ''['') DOMSyntaxError])"
  by (simp add: safeQuerySelectorAll_def safeQuerySelector_def blank_page_def)


section \<open>The blocks of the rendered skills\<close>




























end
